theory Spec2Isabelle
  imports Main
begin

section \<open>The duration model (IntervalTimePicker.tsx, lines 6-53)\<close>

text \<open>
  A TypeScript \<open>number\<close> that holds a field of a duration is modelled as an \<open>int\<close>:
  the fields are integers by the data model, and on integers of ordinary size the
  arithmetic and the comparisons of the source are exact. \<open>hours\<close> is not bounded above.
\<close>

record Duration =
  hours :: int
  minutes :: int
  seconds :: int

text \<open>\<open>keyof Duration\<close>: the three field names.\<close>

datatype field = Hours | Minutes | Seconds

definition get_field :: "field \<Rightarrow> Duration \<Rightarrow> int" where
  "get_field f d = (case f of Hours \<Rightarrow> hours d | Minutes \<Rightarrow> minutes d | Seconds \<Rightarrow> seconds d)"

text \<open>
  \<open>durationSchema\<close>: \<open>hours: z.number().min(0)\<close>, \<open>minutes\<close> and \<open>seconds\<close>:
  \<open>z.number().min(0).max(59)\<close>. \<open>parse\<close> collects one issue for each bound that is
  broken and throws a \<open>ZodError\<close> holding them; with no issue it returns the value.
\<close>

datatype zod_issue = too_small field | too_big field

datatype error = ZodError "zod_issue list"

definition number_min :: "int \<Rightarrow> field \<Rightarrow> int \<Rightarrow> zod_issue list" where
  "number_min lo f x = (if x < lo then [too_small f] else [])"

definition number_max :: "int \<Rightarrow> field \<Rightarrow> int \<Rightarrow> zod_issue list" where
  "number_max hi f x = (if x > hi then [too_big f] else [])"

definition durationSchema_issues :: "Duration \<Rightarrow> zod_issue list" where
  "durationSchema_issues d =
     number_min 0 Hours (hours d) @
     number_min 0 Minutes (minutes d) @ number_max 59 Minutes (minutes d) @
     number_min 0 Seconds (seconds d) @ number_max 59 Seconds (seconds d)"

definition durationSchema_parse :: "Duration \<Rightarrow> error + Duration" where
  "durationSchema_parse d =
     (if durationSchema_issues d = [] then Inr d else Inl (ZodError (durationSchema_issues d)))"

definition DEFAULT_MIN_INTERVAL :: Duration where
  "DEFAULT_MIN_INTERVAL = \<lparr>hours = 0, minutes = 0, seconds = 0\<rparr>"

definition DEFAULT_MAX_INTERVAL :: Duration where
  "DEFAULT_MAX_INTERVAL = \<lparr>hours = 999999, minutes = 59, seconds = 59\<rparr>"

definition durationToMs :: "Duration \<Rightarrow> int" where
  "durationToMs duration =
     hours duration * 3600000 + minutes duration * 60000 + seconds duration * 1000"

section \<open>Clamping and the bounds of one field (lines 55-107)\<close>

definition getNextValidDuration :: "Duration \<Rightarrow> Duration \<Rightarrow> Duration \<Rightarrow> Duration" where
  "getNextValidDuration duration minInterval maxInterval =
     (let durationMs = durationToMs duration;
          minIntervalMs = durationToMs minInterval;
          maxIntervalMs = durationToMs maxInterval
      in if durationMs < minIntervalMs then minInterval
         else if durationMs > maxIntervalMs then maxInterval
         else duration)"

definition getMaxValueForField :: "field \<Rightarrow> Duration \<Rightarrow> Duration \<Rightarrow> int" where
  "getMaxValueForField fld currentDuration maxInterval =
     (if fld = Hours then hours maxInterval
      else if hours currentDuration = hours maxInterval
        then (if fld = Minutes then minutes maxInterval
              else if fld = Seconds \<and> minutes currentDuration = minutes maxInterval
                then seconds maxInterval
              else 59)
      else 59)"

definition getMinValueForField :: "field \<Rightarrow> Duration \<Rightarrow> Duration \<Rightarrow> int" where
  "getMinValueForField fld currentDuration minInterval =
     (if fld = Hours then hours minInterval
      else if hours currentDuration = hours minInterval
        then (if fld = Minutes then minutes minInterval
              else if fld = Seconds \<and> minutes currentDuration = minutes minInterval
                then seconds minInterval
              else 0)
      else 0)"

section \<open>Strings of digits (lines 109-111, 172-174, 193)\<close>

text \<open>
  A string is modelled by its bytes in UTF-8; every string the source builds here is
  ASCII, one byte for each character. \<open>value.toString()\<close> of an integer is its decimal
  numeral, with a minus sign when it is negative; \<open>padStart(2, '0')\<close> fills a shorter
  string with zeros on the left; \<open>slice(1)\<close> drops the first character.
  \<open>parseInt(s, 10)\<close> skips the leading white space and line terminators of ECMAScript
  (the ASCII ones, U+00A0, U+1680, U+2000 to U+200A, U+2028, U+2029, U+202F, U+205F,
  U+3000 and U+FEFF), reads an optional sign and then the longest run of decimal digits;
  it is \<open>NaN\<close> (here \<open>None\<close>) when that run is empty.
\<close>

definition digit_char :: "nat \<Rightarrow> char" where
  "digit_char n = ''0123456789'' ! n"

definition isDigit :: "char \<Rightarrow> bool" where
  "isDigit c = (48 \<le> (of_char c :: nat) \<and> (of_char c :: nat) \<le> 57)"

definition digit_value :: "char \<Rightarrow> nat" where
  "digit_value c = of_char c - 48"

fun digits :: "nat \<Rightarrow> string" where
  "digits n = (if n < 10 then [digit_char n] else digits (n div 10) @ [digit_char (n mod 10)])"

declare digits.simps [simp del]

definition toString :: "int \<Rightarrow> string" where
  "toString v = (if v < 0 then CHR ''-'' # digits (nat (- v)) else digits (nat v))"

definition padStart :: "nat \<Rightarrow> char \<Rightarrow> string \<Rightarrow> string" where
  "padStart n c s = replicate (n - length s) c @ s"

definition formatNumber :: "int \<Rightarrow> string" where
  "formatNumber v = padStart 2 CHR ''0'' (toString v)"

definition slice :: "nat \<Rightarrow> string \<Rightarrow> string" where
  "slice n s = drop n s"

text \<open>
  White space and line terminators by their bytes: one byte in ASCII, two bytes for
  U+00A0, three bytes for the others.
\<close>

definition isWhiteSpace1 :: "char \<Rightarrow> bool" where
  "isWhiteSpace1 a = ((of_char a :: nat) \<in> {9, 10, 11, 12, 13, 32})"

definition isWhiteSpace2 :: "char \<Rightarrow> char \<Rightarrow> bool" where
  "isWhiteSpace2 a b = ((of_char a :: nat) = 194 \<and> (of_char b :: nat) = 160)"

definition isWhiteSpace3 :: "char \<Rightarrow> char \<Rightarrow> char \<Rightarrow> bool" where
  "isWhiteSpace3 a b c =
     (let x = (of_char a :: nat); y = (of_char b :: nat); z = (of_char c :: nat)
      in (x = 225 \<and> y = 154 \<and> z = 128)
       \<or> (x = 226 \<and> y = 128 \<and> ((128 \<le> z \<and> z \<le> 138) \<or> z = 168 \<or> z = 169 \<or> z = 175))
       \<or> (x = 226 \<and> y = 129 \<and> z = 159)
       \<or> (x = 227 \<and> y = 128 \<and> z = 128)
       \<or> (x = 239 \<and> y = 187 \<and> z = 191))"

text \<open>
  The number of bytes of the white space character or line terminator a string starts
  with; 0 when it starts with none.
\<close>

fun whiteSpaceLen :: "string \<Rightarrow> nat" where
  "whiteSpaceLen (a # b # c # r) =
     (if isWhiteSpace1 a then 1 else if isWhiteSpace2 a b then 2
      else if isWhiteSpace3 a b c then 3 else 0)"
| "whiteSpaceLen [a, b] = (if isWhiteSpace1 a then 1 else if isWhiteSpace2 a b then 2 else 0)"
| "whiteSpaceLen [a] = (if isWhiteSpace1 a then 1 else 0)"
| "whiteSpaceLen [] = 0"

function skipWhiteSpace :: "string \<Rightarrow> string" where
  "skipWhiteSpace s =
     (if whiteSpaceLen s = 0 then s else skipWhiteSpace (drop (whiteSpaceLen s) s))"
  by pat_completeness auto
termination
proof (relation "measure length")
  show "wf (measure length)" by simp
next
  fix s :: string
  assume a: "whiteSpaceLen s \<noteq> 0"
  have "whiteSpaceLen s \<le> length s"
    by (cases s rule: whiteSpaceLen.cases) simp_all
  with a show "(drop (whiteSpaceLen s) s, s) \<in> measure length" by simp
qed

declare skipWhiteSpace.simps [simp del]

definition digits_value :: "string \<Rightarrow> nat" where
  "digits_value s = foldl (\<lambda>acc c. acc * 10 + digit_value c) 0 s"

definition parseInt :: "string \<Rightarrow> int option" where
  "parseInt s =
     (let s1 = skipWhiteSpace s;
          neg = (case s1 of [] \<Rightarrow> False | c # _ \<Rightarrow> c = CHR ''-'');
          s2 = (case s1 of [] \<Rightarrow> [] | c # r \<Rightarrow> if c = CHR ''-'' \<or> c = CHR ''+'' then r else s1);
          ds = takeWhile isDigit s2
      in if ds = [] then None
         else Some (if neg then - int (digits_value ds) else int (digits_value ds)))"

section \<open>One field input (lines 113-215)\<close>

text \<open>
  The properties of an \<open>IntervalInput\<close>. The two focus handlers are optional: the
  record holds whether each was supplied. What a handler does is the list of calls it
  makes, in order: \<open>e.preventDefault()\<close>, \<open>onChange(v)\<close>, \<open>onLeftFocus()\<close>,
  \<open>onRightFocus()\<close>.
\<close>

record IntervalInputProps =
  "value" :: int
  min_value :: int
  max_value :: int
  onLeftFocus :: bool
  onRightFocus :: bool
  isLastField :: bool

datatype input_event = PreventDefault | OnChange int | OnLeftFocus | OnRightFocus

text \<open>\<open>x >= min && x <= max\<close> on a number that may be \<open>NaN\<close>: false on \<open>NaN\<close>.\<close>

definition within :: "int option \<Rightarrow> int \<Rightarrow> int \<Rightarrow> bool" where
  "within x lo hi = (case x of None \<Rightarrow> False | Some n \<Rightarrow> n \<ge> lo \<and> n \<le> hi)"

text \<open>\<open>/^\d$/.test(e.key)\<close>: the key is one decimal digit.\<close>

definition isDigitKey :: "string \<Rightarrow> bool" where
  "isDigitKey k = (case k of [c] \<Rightarrow> isDigit c | _ \<Rightarrow> False)"

definition handleKeyDown :: "IntervalInputProps \<Rightarrow> string \<Rightarrow> input_event list" where
  "handleKeyDown p k =
     (if k = ''Tab'' then []
      else
        (if k = ''ArrowLeft'' \<and> onLeftFocus p then [PreventDefault, OnLeftFocus] else []) @
        (if k = ''ArrowRight'' \<and> onRightFocus p \<and> \<not> isLastField p
           then [PreventDefault, OnRightFocus] else []) @
        (if k = ''ArrowUp''
           then (let newValue = value p + 1
                 in [PreventDefault,
                     OnChange (if newValue > max_value p then min_value p else newValue)])
           else []) @
        (if k = ''ArrowDown''
           then (let newValue = value p - 1
                 in [PreventDefault,
                     OnChange (if newValue < min_value p then max_value p else newValue)])
           else []) @
        (if isDigitKey k
           then PreventDefault #
             (let currentStr = padStart 2 CHR ''0'' (toString (value p));
                  newStr = slice 1 currentStr @ k;
                  newValue = parseInt newStr
              in if within newValue (min_value p) (max_value p)
                 then OnChange (the newValue) #
                      (if onRightFocus p \<and> \<not> isLastField p then [OnRightFocus] else [])
                 else if within (parseInt k) (min_value p) (max_value p)
                 then [OnChange (the (parseInt k))]
                 else [])
           else []))"


text \<open>
  The values a list of calls passes to \<open>onChange\<close>, and whether a focus handler is among
  the calls. Only a focus handler moves the focus, so without such a call the focus
  stays where it is; what a call does is for the picker to say (\<open>focusAfter\<close> below).
\<close>

definition committed :: "input_event list \<Rightarrow> int list" where
  "committed evs = concat (map (\<lambda>e. case e of OnChange v \<Rightarrow> [v] | _ \<Rightarrow> []) evs)"

definition callsFocusHandler :: "input_event list \<Rightarrow> bool" where
  "callsFocusHandler evs = (OnLeftFocus \<in> set evs \<or> OnRightFocus \<in> set evs)"

section \<open>The picker (lines 217-307)\<close>

text \<open>
  The properties of the picker as its body sees them, after the defaults of the
  parameter list: an omitted \<open>minInterval\<close> is \<open>DEFAULT_MIN_INTERVAL\<close>, an omitted
  \<open>maxInterval\<close> is \<open>DEFAULT_MAX_INTERVAL\<close>, an omitted \<open>show...\<close> flag is true, omitted
  \<open>presets\<close> are the empty list. \<open>onPresetChange\<close> is optional: the record holds whether
  it was supplied. \<open>setInterval\<close> is required.
\<close>

record IntervalPreset =
  preset_id :: string
  preset_value :: string
  preset_label :: string
  duration :: "Duration option"

record IntervalTimePickerProps =
  interval :: Duration
  minInterval :: Duration
  maxInterval :: Duration
  showHours :: bool
  showMinutes :: bool
  showSeconds :: bool
  presets :: "IntervalPreset list"
  selectedPreset :: "string option"
  onPresetChange :: bool

text \<open>
  The calls a handler of the picker makes, in order: \<open>setInterval(d)\<close>,
  \<open>onPresetChange(value)\<close> and the diagnostic \<open>console.error\<close>.
\<close>

datatype picker_event = SetInterval Duration | OnPresetChange string | ConsoleError "zod_issue list"

definition adjustedInterval :: "IntervalTimePickerProps \<Rightarrow> Duration \<Rightarrow> Duration" where
  "adjustedInterval p newInterval =
     \<lparr>hours = (if showHours p then hours newInterval else 0),
      minutes = (if showMinutes p then minutes newInterval else 0),
      seconds = (if showSeconds p then seconds newInterval else 0)\<rparr>"

text \<open>
  The body of the \<open>try\<close> block (lines 251-258): the exception of \<open>parse\<close> leaves it
  before anything is emitted.
\<close>

definition tryBlock :: "IntervalTimePickerProps \<Rightarrow> Duration \<Rightarrow> error + picker_event list" where
  "tryBlock p adjusted =
     (case durationSchema_parse adjusted of
        Inl err \<Rightarrow> Inl err
      | Inr _ \<Rightarrow>
          (let validInterval = getNextValidDuration adjusted (minInterval p) (maxInterval p)
           in Inr [SetInterval validInterval]))"

text \<open>
  \<open>handleIntervalChange\<close> (lines 242-275). The result is \<open>Inl\<close> when an exception
  leaves the handler and \<open>Inr\<close> of the calls made when it returns.
\<close>

definition handleIntervalChange ::
  "IntervalTimePickerProps \<Rightarrow> Duration \<Rightarrow> error + picker_event list" where
  "handleIntervalChange p newInterval =
     (case tryBlock p (adjustedInterval p newInterval) of
        Inr evs \<Rightarrow> Inr evs
      | Inl (ZodError issues) \<Rightarrow> Inr [ConsoleError issues, SetInterval (interval p)])"

text \<open>\<open>handlePresetChange\<close> (lines 277-286); \<open>find\<close> takes the first preset with the key.\<close>

definition handlePresetChange ::
  "IntervalTimePickerProps \<Rightarrow> string \<Rightarrow> error + picker_event list" where
  "handlePresetChange p v =
     (let preset = find (\<lambda>q. preset_value q = v) (presets p);
          notify = (if onPresetChange p then [OnPresetChange v] else [])
      in case preset of
           None \<Rightarrow> Inr notify
         | Some q \<Rightarrow>
             (case duration q of
                None \<Rightarrow> Inr notify
              | Some d \<Rightarrow>
                  (case handleIntervalChange p d of
                     Inl err \<Rightarrow> Inl err
                   | Inr evs \<Rightarrow> Inr (evs @ notify))))"

text \<open>The three field setters (lines 288-301): \<open>{ ...interval, hours }\<close> and so on.\<close>

definition setHours :: "IntervalTimePickerProps \<Rightarrow> int \<Rightarrow> error + picker_event list" where
  "setHours p h = handleIntervalChange p ((interval p)\<lparr>hours := h\<rparr>)"

definition setMinutes :: "IntervalTimePickerProps \<Rightarrow> int \<Rightarrow> error + picker_event list" where
  "setMinutes p m = handleIntervalChange p ((interval p)\<lparr>minutes := m\<rparr>)"

definition setSeconds :: "IntervalTimePickerProps \<Rightarrow> int \<Rightarrow> error + picker_event list" where
  "setSeconds p s = handleIntervalChange p ((interval p)\<lparr>seconds := s\<rparr>)"

definition shown :: "IntervalTimePickerProps \<Rightarrow> field \<Rightarrow> bool" where
  "shown p f = (case f of Hours \<Rightarrow> showHours p | Minutes \<Rightarrow> showMinutes p | Seconds \<Rightarrow> showSeconds p)"

text \<open>The durations a list of calls passes to \<open>setInterval\<close>.\<close>

definition emitted :: "picker_event list \<Rightarrow> Duration list" where
  "emitted evs = concat (map (\<lambda>e. case e of SetInterval d \<Rightarrow> [d] | _ \<Rightarrow> []) evs)"

definition notified :: "picker_event list \<Rightarrow> string list" where
  "notified evs = concat (map (\<lambda>e. case e of OnPresetChange v \<Rightarrow> [v] | _ \<Rightarrow> []) evs)"

text \<open>Comparison by total milliseconds.\<close>

definition inRange :: "Duration \<Rightarrow> Duration \<Rightarrow> Duration \<Rightarrow> bool" where
  "inRange d lo hi = (durationToMs lo \<le> durationToMs d \<and> durationToMs d \<le> durationToMs hi)"

section \<open>The fields the picker mounts (lines 303-383)\<close>

definition lastField :: "IntervalTimePickerProps \<Rightarrow> field" where
  "lastField p = (if showSeconds p then Seconds else if showMinutes p then Minutes else Hours)"

text \<open>
  The properties the picker gives the input of a field it shows: the value and the
  bounds of the field, which focus handlers, and whether it is the last field.
\<close>

definition fieldInput :: "IntervalTimePickerProps \<Rightarrow> field \<Rightarrow> IntervalInputProps" where
  "fieldInput p fld =
     (case fld of
        Hours \<Rightarrow>
          \<lparr>value = hours (interval p),
           min_value = getMinValueForField Hours (interval p) (minInterval p),
           max_value = getMaxValueForField Hours (interval p) (maxInterval p),
           onLeftFocus = False, onRightFocus = True,
           isLastField = (lastField p = Hours)\<rparr>
      | Minutes \<Rightarrow>
          \<lparr>value = minutes (interval p),
           min_value = getMinValueForField Minutes (interval p) (minInterval p),
           max_value = getMaxValueForField Minutes (interval p) (maxInterval p),
           onLeftFocus = True, onRightFocus = True,
           isLastField = (lastField p = Minutes)\<rparr>
      | Seconds \<Rightarrow>
          \<lparr>value = seconds (interval p),
           min_value = getMinValueForField Seconds (interval p) (minInterval p),
           max_value = getMaxValueForField Seconds (interval p) (maxInterval p),
           onLeftFocus = True, onRightFocus = False,
           isLastField = True\<rparr>)"

text \<open>
  What the focus handlers of a field do when called: the field that receives the
  focus, or \<open>None\<close> when no field does. The handler of the hours is
  \<open>() => showMinutes && minutesRef.current?.focus()\<close>, and so on; the reference of a
  field that is shown holds its input.
\<close>

definition onRightFocusTarget :: "IntervalTimePickerProps \<Rightarrow> field \<Rightarrow> field option" where
  "onRightFocusTarget p fld =
     (case fld of
        Hours \<Rightarrow> if showMinutes p then Some Minutes else None
      | Minutes \<Rightarrow> if showSeconds p then Some Seconds else None
      | Seconds \<Rightarrow> None)"

definition onLeftFocusTarget :: "IntervalTimePickerProps \<Rightarrow> field \<Rightarrow> field option" where
  "onLeftFocusTarget p fld =
     (case fld of
        Hours \<Rightarrow> None
      | Minutes \<Rightarrow> if showHours p then Some Hours else None
      | Seconds \<Rightarrow> if showMinutes p then Some Minutes else None)"

text \<open>
  The field that holds the focus after the input of \<open>fld\<close>, which held it, has made the
  calls of a list.
\<close>

definition focusStep :: "IntervalTimePickerProps \<Rightarrow> field \<Rightarrow> field \<Rightarrow> input_event \<Rightarrow> field" where
  "focusStep p fld cur e =
     (case e of
        OnRightFocus \<Rightarrow> (case onRightFocusTarget p fld of Some t \<Rightarrow> t | None \<Rightarrow> cur)
      | OnLeftFocus \<Rightarrow> (case onLeftFocusTarget p fld of Some t \<Rightarrow> t | None \<Rightarrow> cur)
      | _ \<Rightarrow> cur)"

definition focusAfter :: "IntervalTimePickerProps \<Rightarrow> field \<Rightarrow> input_event list \<Rightarrow> field" where
  "focusAfter p fld evs = foldl (focusStep p fld) fld evs"

section \<open>The demonstration application (App.tsx)\<close>

text \<open>
  The properties the demonstration application gives the picker: its initial state, its
  five presets (the last one, \<open>custom\<close>, has no duration), bounds of five minutes and of
  twenty-four hours, and every field shown.
\<close>

definition App_presets :: "IntervalPreset list" where
  "App_presets =
     [\<lparr>preset_id = ''1'', preset_value = ''1'', preset_label = ''1 Hour'',
        duration = Some \<lparr>hours = 1, minutes = 0, seconds = 0\<rparr>\<rparr>,
      \<lparr>preset_id = ''2'', preset_value = ''2'', preset_label = ''6 Hours'',
        duration = Some \<lparr>hours = 6, minutes = 0, seconds = 0\<rparr>\<rparr>,
      \<lparr>preset_id = ''3'', preset_value = ''3'', preset_label = ''12 Hours'',
        duration = Some \<lparr>hours = 12, minutes = 0, seconds = 0\<rparr>\<rparr>,
      \<lparr>preset_id = ''4'', preset_value = ''4'', preset_label = ''1 Day'',
        duration = Some \<lparr>hours = 24, minutes = 0, seconds = 0\<rparr>\<rparr>,
      \<lparr>preset_id = ''custom'', preset_value = ''custom'', preset_label = ''Custom'',
        duration = None\<rparr>]"

definition App_props :: IntervalTimePickerProps where
  "App_props =
     \<lparr>interval = \<lparr>hours = 1, minutes = 30, seconds = 0\<rparr>,
      minInterval = \<lparr>hours = 0, minutes = 5, seconds = 0\<rparr>,
      maxInterval = \<lparr>hours = 24, minutes = 0, seconds = 0\<rparr>,
      showHours = True, showMinutes = True, showSeconds = True,
      presets = App_presets, selectedPreset = Some ''1'', onPresetChange = True\<rparr>"

section \<open>Lemmas on strings of digits\<close>

lemma lt10_cases: "n < (10::nat) \<Longrightarrow> n \<in> {0,1,2,3,4,5,6,7,8,9}"
  by auto

lemma digit_char_isDigit: "n < 10 \<Longrightarrow> isDigit (digit_char n)"
  by (drule lt10_cases) (auto simp add: digit_char_def isDigit_def)

lemma digit_value_digit_char: "n < 10 \<Longrightarrow> digit_value (digit_char n) = n"
  by (drule lt10_cases) (auto simp add: digit_char_def digit_value_def)


lemma digits_small: "n < 10 \<Longrightarrow> digits n = [digit_char n]"
  by (subst digits.simps) simp

lemma digits_large: "\<not> n < 10 \<Longrightarrow> digits n = digits (n div 10) @ [digit_char (n mod 10)]"
  by (subst digits.simps) simp

lemma digits_isDigit: "c \<in> set (digits n) \<Longrightarrow> isDigit c"
proof (induction n arbitrary: c rule: digits.induct)
  case (1 n)
  show ?case
  proof (cases "n < 10")
    case True
    with "1.prems" show ?thesis by (simp add: digits_small digit_char_isDigit)
  next
    case False
    with "1.prems" have "c \<in> set (digits (n div 10)) \<or> c = digit_char (n mod 10)"
      by (auto simp add: digits_large)
    with False "1.IH" show ?thesis by (auto simp add: digit_char_isDigit)
  qed
qed

lemma digits_nonempty: "digits n \<noteq> []"
  by (subst digits.simps) simp

lemma isDigit_whiteSpaceLen: "isDigit c \<Longrightarrow> whiteSpaceLen (c # r) = 0"
proof -
  assume d: "isDigit c"
  have 1: "\<not> isWhiteSpace1 c" using d by (auto simp add: isDigit_def isWhiteSpace1_def)
  have 2: "\<And>b. \<not> isWhiteSpace2 c b" using d by (auto simp add: isDigit_def isWhiteSpace2_def)
  have 3: "\<And>b e. \<not> isWhiteSpace3 c b e"
    using d by (auto simp add: isDigit_def isWhiteSpace3_def Let_def)
  show ?thesis by (cases "c # r" rule: whiteSpaceLen.cases) (simp_all add: 1 2 3)
qed

lemma isDigit_not_space: "isDigit c \<Longrightarrow> skipWhiteSpace (c # r) = c # r"
  by (subst skipWhiteSpace.simps) (simp add: isDigit_whiteSpaceLen)

lemma isDigit_not_sign: "isDigit c \<Longrightarrow> c \<noteq> CHR ''-'' \<and> c \<noteq> CHR ''+''"
  by (auto simp add: isDigit_def)

lemma parseInt_digits:
  assumes "s \<noteq> []" and "\<forall>c \<in> set s. isDigit c"
  shows "parseInt s = Some (int (digits_value s))"
proof -
  from assms obtain c r where s: "s = c # r" by (cases s) auto
  with assms have c: "isDigit c" by simp
  have 1: "skipWhiteSpace s = s" using s c by (simp add: isDigit_not_space)
  have 2: "takeWhile isDigit s = s" using assms(2) by (simp add: takeWhile_eq_all_conv)
  show ?thesis using 1 2 s isDigit_not_sign [OF c] assms(1)
    by (simp add: parseInt_def Let_def)
qed

lemma digits_value_snoc: "digits_value (s @ [c]) = digits_value s * 10 + digit_value c"
  by (simp add: digits_value_def)

lemma digits_value_digits: "digits_value (digits n) = n"
proof (induction n rule: digits.induct)
  case (1 n)
  show ?case
  proof (cases "n < 10")
    case True
    then show ?thesis by (simp add: digits_small digits_value_def digit_value_digit_char)
  next
    case False
    then have "digits_value (digits n) = digits_value (digits (n div 10)) * 10 + digit_value (digit_char (n mod 10))"
      by (simp add: digits_large digits_value_snoc)
    with False "1.IH" show ?thesis by (simp add: digit_value_digit_char)
  qed
qed


lemma toString_tail_digits: "c \<in> set (slice 1 (padStart 2 CHR ''0'' (toString v))) \<Longrightarrow> isDigit c"
proof (cases "v < 0")
  case True
  assume a: "c \<in> set (slice 1 (padStart 2 CHR ''0'' (toString v)))"
  have "length (digits (nat (- v))) \<ge> 1" using digits_nonempty [of "nat (- v)"]
    by (cases "digits (nat (- v))") auto
  then have "padStart 2 CHR ''0'' (toString v) = CHR ''-'' # digits (nat (- v))"
    using True by (simp add: padStart_def toString_def)
  with a show ?thesis by (simp add: slice_def digits_isDigit)
next
  case False
  assume a: "c \<in> set (slice 1 (padStart 2 CHR ''0'' (toString v)))"
  then have "c \<in> set (padStart 2 CHR ''0'' (toString v))"
    by (auto simp add: slice_def dest: in_set_dropD)
  with False have "c = CHR ''0'' \<or> c \<in> set (digits (nat v))"
    by (auto simp add: padStart_def toString_def split: if_splits)
  then show ?thesis
  proof
    assume "c = CHR ''0''"
    then show ?thesis by (simp add: isDigit_def)
  next
    assume "c \<in> set (digits (nat v))"
    then show ?thesis by (rule digits_isDigit)
  qed
qed


lemma parseInt_newStr:
  assumes "isDigit c"
  shows "parseInt (slice 1 (padStart 2 CHR ''0'' (toString v)) @ [c]) =
         Some (int (digits_value (slice 1 (padStart 2 CHR ''0'' (toString v))) * 10 + digit_value c))"
proof -
  have "\<forall>x \<in> set (slice 1 (padStart 2 CHR ''0'' (toString v)) @ [c]). isDigit x"
    using assms toString_tail_digits by auto
  then show ?thesis
    using parseInt_digits [of "slice 1 (padStart 2 CHR ''0'' (toString v)) @ [c]"]
    by (simp add: digits_value_snoc)
qed

lemma parseInt_key: "isDigit c \<Longrightarrow> parseInt [c] = Some (int (digit_value c))"
  using parseInt_digits [of "[c]"] by (simp add: digits_value_def)

lemma tail_two_digit:
  assumes "0 \<le> v" and "v \<le> 99"
  shows "digits_value (slice 1 (padStart 2 CHR ''0'' (toString v))) = nat v mod 10"
proof (cases "v < 10")
  case True
  with assms have "toString v = [digit_char (nat v)]" by (simp add: toString_def digits_small)
  with True assms show ?thesis
    by (simp add: padStart_def slice_def digits_value_def digit_value_digit_char)
next
  case False
  with assms have "digits (nat v) = [digit_char (nat v div 10), digit_char (nat v mod 10)]"
    by (simp add: digits_large digits_small)
  with False assms show ?thesis
    by (simp add: toString_def padStart_def slice_def digits_value_def digit_value_digit_char)
qed

section \<open>Lemmas on the field input\<close>


lemma within_Some: "within (Some n) lo hi = (lo \<le> n \<and> n \<le> hi)"
  by (simp add: within_def)

lemma handleKeyDown_ArrowUp:
  "handleKeyDown p ''ArrowUp'' =
     [PreventDefault, OnChange (if value p + 1 > max_value p then min_value p else value p + 1)]"
  by (simp add: handleKeyDown_def isDigitKey_def Let_def)

lemma handleKeyDown_ArrowDown:
  "handleKeyDown p ''ArrowDown'' =
     [PreventDefault, OnChange (if value p - 1 < min_value p then max_value p else value p - 1)]"
  by (simp add: handleKeyDown_def isDigitKey_def Let_def)

lemma handleKeyDown_digit:
  assumes "isDigit c"
  shows "handleKeyDown p [c] =
     PreventDefault #
       (if within (parseInt (slice 1 (formatNumber (value p)) @ [c])) (min_value p) (max_value p)
        then OnChange (the (parseInt (slice 1 (formatNumber (value p)) @ [c]))) #
             (if onRightFocus p \<and> \<not> isLastField p then [OnRightFocus] else [])
        else if within (parseInt [c]) (min_value p) (max_value p)
        then [OnChange (the (parseInt [c]))]
        else [])"
  using assms by (simp add: handleKeyDown_def isDigitKey_def Let_def formatNumber_def)

lemma committed_simps:
  "committed [] = []"
  "committed (PreventDefault # evs) = committed evs"
  "committed (OnChange v # evs) = v # committed evs"
  "committed (OnLeftFocus # evs) = committed evs"
  "committed (OnRightFocus # evs) = committed evs"
  by (simp_all add: committed_def)









section \<open>Lemmas on the picker\<close>

lemma getNextValidDuration_cases:
  "getNextValidDuration d mn mx =
     (if durationToMs d < durationToMs mn then mn
      else if durationToMs d > durationToMs mx then mx
      else d)"
  by (simp add: getNextValidDuration_def Let_def)

lemma durationSchema_issues_empty:
  "durationSchema_issues d = [] \<longleftrightarrow>
     0 \<le> hours d \<and> 0 \<le> minutes d \<and> minutes d \<le> 59 \<and> 0 \<le> seconds d \<and> seconds d \<le> 59"
  by (auto simp add: durationSchema_issues_def number_min_def number_max_def)

lemma handleIntervalChange_valid:
  assumes "durationSchema_issues (adjustedInterval p n) = []"
  shows "handleIntervalChange p n =
     Inr [SetInterval (getNextValidDuration (adjustedInterval p n) (minInterval p) (maxInterval p))]"
  using assms by (simp add: handleIntervalChange_def tryBlock_def durationSchema_parse_def)

lemma handleIntervalChange_invalid:
  assumes "durationSchema_issues (adjustedInterval p n) \<noteq> []"
  shows "handleIntervalChange p n =
     Inr [ConsoleError (durationSchema_issues (adjustedInterval p n)), SetInterval (interval p)]"
  using assms by (simp add: handleIntervalChange_def tryBlock_def durationSchema_parse_def)

lemma handleIntervalChange_returns:
  "\<exists>e evs. handleIntervalChange p n = Inr evs \<and> emitted evs = [e]"
proof (cases "durationSchema_issues (adjustedInterval p n) = []")
  case True
  then show ?thesis by (simp add: handleIntervalChange_valid emitted_def)
next
  case False
  then show ?thesis by (simp add: handleIntervalChange_invalid emitted_def)
qed

lemma getNextValidDuration_inRange:
  assumes "durationToMs mn \<le> durationToMs mx"
  shows "inRange (getNextValidDuration d mn mx) mn mx"
  using assms by (simp add: getNextValidDuration_cases inRange_def)

lemma adjustedInterval_hidden:
  assumes "\<not> shown p f"
  shows "get_field f (adjustedInterval p n) = 0"
  using assms by (cases f) (simp_all add: shown_def get_field_def adjustedInterval_def)

lemma adjustedInterval_all_shown:
  assumes "showHours p" and "showMinutes p" and "showSeconds p"
  shows "adjustedInterval p n = n"
  using assms by (simp add: adjustedInterval_def)

lemma notified_simps:
  "notified [] = []"
  "notified (SetInterval d # evs) = notified evs"
  "notified (ConsoleError is # evs) = notified evs"
  "notified (OnPresetChange v # evs) = v # notified evs"
  by (simp_all add: notified_def)

lemma notified_append: "notified (xs @ ys) = notified xs @ notified ys"
  by (simp add: notified_def)

lemma emitted_append: "emitted (xs @ ys) = emitted xs @ emitted ys"
  by (simp add: emitted_def)

lemma handleIntervalChange_notified:
  "handleIntervalChange p n = Inr evs \<Longrightarrow> notified evs = []"
  by (cases "durationSchema_issues (adjustedInterval p n) = []")
     (auto simp add: handleIntervalChange_valid handleIntervalChange_invalid notified_simps)

lemma handlePresetChange_duration:
  assumes "find (\<lambda>q. preset_value q = v) (presets p) = Some q" and "duration q = Some d"
    and "handleIntervalChange p d = Inr evs"
  shows "handlePresetChange p v = Inr (evs @ (if onPresetChange p then [OnPresetChange v] else []))"
  using assms by (simp add: handlePresetChange_def Let_def)

lemma handlePresetChange_no_duration:
  assumes "find (\<lambda>q. preset_value q = v) (presets p) = None \<or>
        (\<exists>q. find (\<lambda>q. preset_value q = v) (presets p) = Some q \<and> duration q = None)"
  shows "handlePresetChange p v = Inr (if onPresetChange p then [OnPresetChange v] else [])"
  using assms by (auto simp add: handlePresetChange_def Let_def)


section \<open>The clamp\<close>

text \<open>
  C1, as written, fails when the bounds are inverted, because the test against \<open>min\<close>
  comes first. With a minimum of two minutes and a maximum of zero, the duration of one
  minute is above the maximum and the result is the minimum, not the maximum; and the
  duration of zero, whose total equals that of the maximum, is not returned unchanged:
  the result is again the minimum.
\<close>

theorem getNextValidDuration_max_counterexample:
  "durationToMs \<lparr>hours = 0, minutes = 1, seconds = 0\<rparr>
     > durationToMs \<lparr>hours = 0, minutes = 0, seconds = 0\<rparr>
   \<and> getNextValidDuration \<lparr>hours = 0, minutes = 1, seconds = 0\<rparr>
         \<lparr>hours = 0, minutes = 2, seconds = 0\<rparr> \<lparr>hours = 0, minutes = 0, seconds = 0\<rparr>
       = \<lparr>hours = 0, minutes = 2, seconds = 0\<rparr>
   \<and> getNextValidDuration \<lparr>hours = 0, minutes = 1, seconds = 0\<rparr>
         \<lparr>hours = 0, minutes = 2, seconds = 0\<rparr> \<lparr>hours = 0, minutes = 0, seconds = 0\<rparr>
       \<noteq> \<lparr>hours = 0, minutes = 0, seconds = 0\<rparr>
   \<and> durationToMs \<lparr>hours = 0, minutes = 0, seconds = 0\<rparr>
     = durationToMs \<lparr>hours = 0, minutes = 0, seconds = 0\<rparr>
   \<and> getNextValidDuration \<lparr>hours = 0, minutes = 0, seconds = 0\<rparr>
         \<lparr>hours = 0, minutes = 2, seconds = 0\<rparr> \<lparr>hours = 0, minutes = 0, seconds = 0\<rparr>
       \<noteq> \<lparr>hours = 0, minutes = 0, seconds = 0\<rparr>"
  by (simp add: getNextValidDuration_def durationToMs_def)

text \<open>
  C1, amended. For every duration \<open>d\<close> and bounds \<open>mn\<close>, \<open>mx\<close>: the result is \<open>mn\<close>
  when the total of \<open>d\<close> is strictly below that of \<open>mn\<close>; otherwise it is \<open>mx\<close> when
  the total of \<open>d\<close> is strictly above that of \<open>mx\<close>; otherwise it is \<open>d\<close> itself. The
  result is always one of the three durations, whole. When the total of \<open>mn\<close> is at
  most that of \<open>mx\<close> the three cases are the claim's own: below \<open>mn\<close> gives \<open>mn\<close>, above
  \<open>mx\<close> gives \<open>mx\<close>, and anything else, a total equal to that of a bound included, gives
  \<open>d\<close> unchanged.
\<close>

theorem getNextValidDuration_clamp:
  "(durationToMs d < durationToMs mn \<longrightarrow> getNextValidDuration d mn mx = mn)
   \<and> (durationToMs mn \<le> durationToMs d \<and> durationToMs d > durationToMs mx
        \<longrightarrow> getNextValidDuration d mn mx = mx)
   \<and> (durationToMs mn \<le> durationToMs d \<and> durationToMs d \<le> durationToMs mx
        \<longrightarrow> getNextValidDuration d mn mx = d)
   \<and> getNextValidDuration d mn mx \<in> {mn, mx, d}
   \<and> (durationToMs mn \<le> durationToMs mx \<longrightarrow>
        (durationToMs d > durationToMs mx \<longrightarrow> getNextValidDuration d mn mx = mx)
        \<and> (durationToMs d = durationToMs mn \<or> durationToMs d = durationToMs mx
             \<longrightarrow> getNextValidDuration d mn mx = d))"
  by (auto simp add: getNextValidDuration_cases)

theorem getNextValidDuration_clamp_witness:
  "durationToMs \<lparr>hours = 0, minutes = 60, seconds = 0\<rparr>
     \<le> durationToMs \<lparr>hours = 2, minutes = 0, seconds = 0\<rparr>
   \<and> durationToMs \<lparr>hours = 1, minutes = 0, seconds = 0\<rparr>
     = durationToMs \<lparr>hours = 0, minutes = 60, seconds = 0\<rparr>
   \<and> getNextValidDuration \<lparr>hours = 1, minutes = 0, seconds = 0\<rparr>
         \<lparr>hours = 0, minutes = 60, seconds = 0\<rparr> \<lparr>hours = 2, minutes = 0, seconds = 0\<rparr>
       = \<lparr>hours = 1, minutes = 0, seconds = 0\<rparr>"
  using getNextValidDuration_clamp
    [where d = "\<lparr>hours = 1, minutes = 0, seconds = 0\<rparr>"
       and mn = "\<lparr>hours = 0, minutes = 60, seconds = 0\<rparr>"
       and mx = "\<lparr>hours = 2, minutes = 0, seconds = 0\<rparr>"]
  by (simp add: durationToMs_def)

section \<open>The bounds of one field\<close>

text \<open>
  C2. The maximum of a field: for the hours it is \<open>hours maxInterval\<close> whatever the
  other fields hold; for the minutes it is \<open>minutes maxInterval\<close> when the current hours
  equal the hours of the maximum and 59 otherwise; for the seconds it is
  \<open>seconds maxInterval\<close> when the current hours and minutes both equal those of the
  maximum and 59 otherwise.
\<close>

theorem getMaxValueForField_spec:
  "getMaxValueForField Hours cur mx = hours mx
   \<and> getMaxValueForField Minutes cur mx = (if hours cur = hours mx then minutes mx else 59)
   \<and> getMaxValueForField Seconds cur mx =
       (if hours cur = hours mx \<and> minutes cur = minutes mx then seconds mx else 59)"
  by (simp add: getMaxValueForField_def)

theorem getMaxValueForField_spec_witness:
  "getMaxValueForField Minutes \<lparr>hours = 24, minutes = 30, seconds = 0\<rparr>
       \<lparr>hours = 24, minutes = 0, seconds = 0\<rparr> = 0
   \<and> getMaxValueForField Minutes \<lparr>hours = 23, minutes = 30, seconds = 0\<rparr>
       \<lparr>hours = 24, minutes = 0, seconds = 0\<rparr> = 59"
  using getMaxValueForField_spec [where cur = "\<lparr>hours = 24, minutes = 30, seconds = 0\<rparr>"
      and mx = "\<lparr>hours = 24, minutes = 0, seconds = 0\<rparr>"]
    getMaxValueForField_spec [where cur = "\<lparr>hours = 23, minutes = 30, seconds = 0\<rparr>"
      and mx = "\<lparr>hours = 24, minutes = 0, seconds = 0\<rparr>"]
  by simp

text \<open>
  C3. The minimum of a field mirrors the maximum, with 0 as the floor: for the hours it
  is \<open>hours minInterval\<close> whatever the other fields hold; for the minutes it is
  \<open>minutes minInterval\<close> when the current hours equal the hours of the minimum and 0
  otherwise; for the seconds it is \<open>seconds minInterval\<close> when the current hours and
  minutes both equal those of the minimum and 0 otherwise.
\<close>

theorem getMinValueForField_spec:
  "getMinValueForField Hours cur mn = hours mn
   \<and> getMinValueForField Minutes cur mn = (if hours cur = hours mn then minutes mn else 0)
   \<and> getMinValueForField Seconds cur mn =
       (if hours cur = hours mn \<and> minutes cur = minutes mn then seconds mn else 0)"
  by (simp add: getMinValueForField_def)

theorem getMinValueForField_spec_witness:
  "getMinValueForField Minutes \<lparr>hours = 0, minutes = 30, seconds = 0\<rparr>
       \<lparr>hours = 0, minutes = 5, seconds = 0\<rparr> = 5
   \<and> getMinValueForField Minutes \<lparr>hours = 1, minutes = 30, seconds = 0\<rparr>
       \<lparr>hours = 0, minutes = 5, seconds = 0\<rparr> = 0"
  using getMinValueForField_spec [where cur = "\<lparr>hours = 0, minutes = 30, seconds = 0\<rparr>"
      and mn = "\<lparr>hours = 0, minutes = 5, seconds = 0\<rparr>"]
    getMinValueForField_spec [where cur = "\<lparr>hours = 1, minutes = 30, seconds = 0\<rparr>"
      and mn = "\<lparr>hours = 0, minutes = 5, seconds = 0\<rparr>"]
  by simp

section \<open>The keyboard handler of a field\<close>

text \<open>
  A digit key in one input, for every current value, bounds and typed digit \<open>c\<close>: the
  candidate is the zero-padded display of the current value without its first character,
  followed by the digit, parsed as an integer; the parse always succeeds, and for a
  value from 0 to 99 the candidate is ten times the last digit of the value plus the
  typed digit. If the candidate is within the bounds the handler commits it, and calls
  \<open>onRightFocus\<close> when that handler was supplied and this is not the last field;
  otherwise, if the typed digit alone is within the bounds, it commits the digit and
  calls no focus handler; otherwise it commits nothing and calls no focus handler.
\<close>

lemma handleKeyDown_digit_entry:
  assumes "isDigit c"
  shows "\<exists>n. parseInt (slice 1 (formatNumber (value p)) @ [c]) = Some n
     \<and> (0 \<le> value p \<and> value p \<le> 99 \<longrightarrow> n = (value p mod 10) * 10 + int (digit_value c))
     \<and> parseInt [c] = Some (int (digit_value c))
     \<and> handleKeyDown p [c] =
         (if min_value p \<le> n \<and> n \<le> max_value p
          then PreventDefault # OnChange n #
                 (if onRightFocus p \<and> \<not> isLastField p then [OnRightFocus] else [])
          else if min_value p \<le> int (digit_value c) \<and> int (digit_value c) \<le> max_value p
          then [PreventDefault, OnChange (int (digit_value c))]
          else [PreventDefault])"
proof -
  define n where "n = int (digits_value (slice 1 (formatNumber (value p))) * 10 + digit_value c)"
  have cand: "parseInt (slice 1 (formatNumber (value p)) @ [c]) = Some n"
    using parseInt_newStr [OF assms, of "value p"] by (simp add: n_def formatNumber_def)
  have single: "parseInt [c] = Some (int (digit_value c))"
    using assms by (rule parseInt_key)
  have two: "0 \<le> value p \<and> value p \<le> 99 \<longrightarrow> n = (value p mod 10) * 10 + int (digit_value c)"
    using tail_two_digit [of "value p"] by (auto simp add: n_def formatNumber_def zmod_int)
  have ev: "handleKeyDown p [c] =
         (if min_value p \<le> n \<and> n \<le> max_value p
          then PreventDefault # OnChange n #
                 (if onRightFocus p \<and> \<not> isLastField p then [OnRightFocus] else [])
          else if min_value p \<le> int (digit_value c) \<and> int (digit_value c) \<le> max_value p
          then [PreventDefault, OnChange (int (digit_value c))]
          else [PreventDefault])"
    unfolding handleKeyDown_digit [OF assms] cand single within_Some option.sel by simp
  from cand single two ev show ?thesis by blast
qed

lemma handleKeyDown_digit_entry_example:
  "isDigit CHR ''3''
   \<and> handleKeyDown \<lparr>value = 5, min_value = 0, max_value = 59, onLeftFocus = False,
        onRightFocus = True, isLastField = False\<rparr> ''3''
       = [PreventDefault, OnChange 53, OnRightFocus]
   \<and> isDigit CHR ''9''
   \<and> handleKeyDown \<lparr>value = 5, min_value = 0, max_value = 5, onLeftFocus = False,
        onRightFocus = True, isLastField = False\<rparr> ''9''
       = [PreventDefault]"
proof -
  have d3: "isDigit CHR ''3''" and d9: "isDigit CHR ''9''" by (simp_all add: isDigit_def)
  have v3: "int (digit_value CHR ''3'') = 3" and v9: "int (digit_value CHR ''9'') = 9"
    by (simp_all add: digit_value_def)
  have a: "handleKeyDown \<lparr>value = 5, min_value = 0, max_value = 59, onLeftFocus = False,
        onRightFocus = True, isLastField = False\<rparr> ''3''
       = [PreventDefault, OnChange 53, OnRightFocus]"
    using handleKeyDown_digit_entry [OF d3, of "\<lparr>value = 5, min_value = 0, max_value = 59,
        onLeftFocus = False, onRightFocus = True, isLastField = False\<rparr>"] v3
    by auto
  have b: "handleKeyDown \<lparr>value = 5, min_value = 0, max_value = 5, onLeftFocus = False,
        onRightFocus = True, isLastField = False\<rparr> ''9''
       = [PreventDefault]"
    using handleKeyDown_digit_entry [OF d9, of "\<lparr>value = 5, min_value = 0, max_value = 5,
        onLeftFocus = False, onRightFocus = True, isLastField = False\<rparr>"] v9
    by auto
  from d3 d9 a b show ?thesis by simp
qed

text \<open>
  The focus after a digit key whose candidate is within the bounds, in a field of the
  picker: it goes from the hours to the minutes when the minutes are shown, and from the
  minutes to the seconds when the seconds are shown, and stays otherwise. So it moves
  exactly when the field is not the last one, but for the hours when the minutes are
  hidden and the seconds shown.
\<close>

lemma focusAfter_simps:
  "focusAfter p fld [] = fld"
  "focusAfter p fld [PreventDefault] = fld"
  "focusAfter p fld [PreventDefault, OnChange v] = fld"
  "focusAfter p fld [PreventDefault, OnChange v, OnRightFocus] =
     (case onRightFocusTarget p fld of Some t \<Rightarrow> t | None \<Rightarrow> fld)"
  by (simp_all add: focusAfter_def focusStep_def)

lemma fieldInput_focus:
  "(onRightFocus (fieldInput p fld) \<and> \<not> isLastField (fieldInput p fld)) =
     (fld = Hours \<and> lastField p \<noteq> Hours \<or> fld = Minutes \<and> lastField p \<noteq> Minutes)"
  by (cases fld) (simp_all add: fieldInput_def)

lemma digit_entry_focus:
  assumes "isDigit c"
    and "within (parseInt (slice 1 (formatNumber (value (fieldInput p fld))) @ [c]))
           (min_value (fieldInput p fld)) (max_value (fieldInput p fld))"
  shows "focusAfter p fld (handleKeyDown (fieldInput p fld) [c]) =
     (case fld of
        Hours \<Rightarrow> if showMinutes p then Minutes else Hours
      | Minutes \<Rightarrow> if showSeconds p then Seconds else Minutes
      | Seconds \<Rightarrow> Seconds)"
proof -
  have ev: "handleKeyDown (fieldInput p fld) [c] =
      PreventDefault # OnChange (the (parseInt (slice 1 (formatNumber (value (fieldInput p fld))) @ [c]))) #
        (if onRightFocus (fieldInput p fld) \<and> \<not> isLastField (fieldInput p fld)
         then [OnRightFocus] else [])"
    unfolding handleKeyDown_digit [OF assms(1)] using assms(2) by simp
  show ?thesis
    unfolding ev fieldInput_focus
    by (cases fld) (simp_all add: focusAfter_simps onRightFocusTarget_def lastField_def)
qed

lemma digit_entry_focus_moves:
  assumes "shown p fld" and "isDigit c"
    and "within (parseInt (slice 1 (formatNumber (value (fieldInput p fld))) @ [c]))
           (min_value (fieldInput p fld)) (max_value (fieldInput p fld))"
  shows "(focusAfter p fld (handleKeyDown (fieldInput p fld) [c]) \<noteq> fld) =
     (fld \<noteq> lastField p \<and> \<not> (fld = Hours \<and> \<not> showMinutes p \<and> showSeconds p))"
  unfolding digit_entry_focus [OF assms(2,3)] using assms(1)
  by (cases fld) (auto simp add: lastField_def shown_def)

text \<open>
  C5, at the input where the code leaves the claim. The picker of the demonstration
  application shows the hours and the seconds and hides the minutes; the hours hold 1
  and the key 2 is typed in their field, whose bounds are 0 and 24. The field is shown
  and is not the last one (the last one is the seconds); the candidate 12 is committed
  and \<open>onRightFocus\<close> is called; the focus is still on the hours afterwards, since the
  handler of the hours only ever focuses the minutes. By the claim the focus advances.
\<close>

theorem hours_digit_focus_stays:
  "shown (App_props\<lparr>showMinutes := False, interval := \<lparr>hours = 1, minutes = 0, seconds = 0\<rparr>\<rparr>) Hours
   \<and> lastField (App_props\<lparr>showMinutes := False,
         interval := \<lparr>hours = 1, minutes = 0, seconds = 0\<rparr>\<rparr>) = Seconds
   \<and> handleKeyDown (fieldInput (App_props\<lparr>showMinutes := False,
         interval := \<lparr>hours = 1, minutes = 0, seconds = 0\<rparr>\<rparr>) Hours) ''2''
       = [PreventDefault, OnChange 12, OnRightFocus]
   \<and> focusAfter (App_props\<lparr>showMinutes := False,
         interval := \<lparr>hours = 1, minutes = 0, seconds = 0\<rparr>\<rparr>) Hours
        (handleKeyDown (fieldInput (App_props\<lparr>showMinutes := False,
         interval := \<lparr>hours = 1, minutes = 0, seconds = 0\<rparr>\<rparr>) Hours) ''2'')
       = Hours"
proof -
  define P where "P = App_props\<lparr>showMinutes := False,
         interval := \<lparr>hours = 1, minutes = 0, seconds = 0\<rparr>\<rparr>"
  have sh: "shown P Hours" by (simp add: P_def shown_def App_props_def)
  have lf: "lastField P = Seconds" by (simp add: P_def lastField_def App_props_def)
  have fi: "fieldInput P Hours = \<lparr>value = 1, min_value = 0, max_value = 24,
      onLeftFocus = False, onRightFocus = True, isLastField = False\<rparr>"
    by (simp add: fieldInput_def lf) (simp add: P_def App_props_def getMinValueForField_def
        getMaxValueForField_def)
  have d: "isDigit CHR ''2''" by (simp add: isDigit_def)
  have v: "int (digit_value CHR ''2'') = 2" by (simp add: digit_value_def)
  have ev: "handleKeyDown (fieldInput P Hours) ''2'' = [PreventDefault, OnChange 12, OnRightFocus]"
    unfolding fi
    using handleKeyDown_digit_entry [OF d, of "\<lparr>value = 1, min_value = 0, max_value = 24,
      onLeftFocus = False, onRightFocus = True, isLastField = False\<rparr>"] v
    by auto
  have tg: "onRightFocusTarget P Hours = None"
    by (simp add: onRightFocusTarget_def P_def)
  have fa: "focusAfter P Hours (handleKeyDown (fieldInput P Hours) ''2'') = Hours"
    unfolding ev by (simp add: focusAfter_simps tg)
  from sh lf ev fa show ?thesis unfolding P_def by simp
qed

text \<open>
  C6. For every value and bounds: the Up arrow commits the value plus one when that is
  at most the maximum and the minimum otherwise; the Down arrow commits the value
  minus one when that is at least the minimum and the maximum otherwise; each commits
  exactly that one value, and neither calls a focus handler, so neither moves the
  focus.
\<close>

theorem handleKeyDown_arrows:
  "committed (handleKeyDown p ''ArrowUp'') =
     [if value p + 1 \<le> max_value p then value p + 1 else min_value p]
   \<and> committed (handleKeyDown p ''ArrowDown'') =
     [if value p - 1 \<ge> min_value p then value p - 1 else max_value p]
   \<and> \<not> callsFocusHandler (handleKeyDown p ''ArrowUp'')
   \<and> \<not> callsFocusHandler (handleKeyDown p ''ArrowDown'')"
  by (simp add: handleKeyDown_ArrowUp handleKeyDown_ArrowDown committed_simps callsFocusHandler_def)

theorem handleKeyDown_arrows_witness:
  "committed (handleKeyDown \<lparr>value = 59, min_value = 0, max_value = 59, onLeftFocus = True,
        onRightFocus = True, isLastField = False\<rparr> ''ArrowUp'') = [0]
   \<and> committed (handleKeyDown \<lparr>value = 0, min_value = 0, max_value = 59, onLeftFocus = True,
        onRightFocus = True, isLastField = False\<rparr> ''ArrowDown'') = [59]
   \<and> \<not> callsFocusHandler (handleKeyDown \<lparr>value = 59, min_value = 0, max_value = 59,
        onLeftFocus = True, onRightFocus = True, isLastField = False\<rparr> ''ArrowUp'')"
  using handleKeyDown_arrows [of "\<lparr>value = 59, min_value = 0, max_value = 59,
        onLeftFocus = True, onRightFocus = True, isLastField = False\<rparr>"]
    handleKeyDown_arrows [of "\<lparr>value = 0, min_value = 0, max_value = 59,
        onLeftFocus = True, onRightFocus = True, isLastField = False\<rparr>"]
  by simp




section \<open>The picker: validation and clamping of an update\<close>

text \<open>
  C4. When the total of \<open>minInterval\<close> is at most that of \<open>maxInterval\<close> and the update,
  with its hidden fields set to 0, passes the schema, \<open>handleIntervalChange\<close> emits exactly
  one duration and its total lies between the totals of the two bounds. The same holds
  for the three field setters and for the selection of a preset that carries a duration.
\<close>

theorem emitted_in_range:
  assumes "durationToMs (minInterval p) \<le> durationToMs (maxInterval p)"
  shows "(durationSchema_issues (adjustedInterval p n) = [] \<longrightarrow>
      (\<exists>e. handleIntervalChange p n = Inr [SetInterval e] \<and>
           inRange e (minInterval p) (maxInterval p)))
   \<and> (durationSchema_issues (adjustedInterval p ((interval p)\<lparr>hours := h\<rparr>)) = [] \<longrightarrow>
      (\<exists>e. setHours p h = Inr [SetInterval e] \<and> inRange e (minInterval p) (maxInterval p)))
   \<and> (durationSchema_issues (adjustedInterval p ((interval p)\<lparr>minutes := m\<rparr>)) = [] \<longrightarrow>
      (\<exists>e. setMinutes p m = Inr [SetInterval e] \<and> inRange e (minInterval p) (maxInterval p)))
   \<and> (durationSchema_issues (adjustedInterval p ((interval p)\<lparr>seconds := s\<rparr>)) = [] \<longrightarrow>
      (\<exists>e. setSeconds p s = Inr [SetInterval e] \<and> inRange e (minInterval p) (maxInterval p)))
   \<and> (\<forall>q d. find (\<lambda>q. preset_value q = v) (presets p) = Some q \<and> duration q = Some d \<and>
          durationSchema_issues (adjustedInterval p d) = [] \<longrightarrow>
      (\<exists>e evs. handlePresetChange p v = Inr evs \<and> emitted evs = [e] \<and>
           inRange e (minInterval p) (maxInterval p)))"
proof -
  have main: "\<And>n. durationSchema_issues (adjustedInterval p n) = [] \<Longrightarrow>
      \<exists>e. handleIntervalChange p n = Inr [SetInterval e] \<and> inRange e (minInterval p) (maxInterval p)"
    using assms by (simp add: handleIntervalChange_valid getNextValidDuration_inRange)
  have preset: "\<exists>e evs. handlePresetChange p v = Inr evs \<and> emitted evs = [e] \<and>
           inRange e (minInterval p) (maxInterval p)"
    if a: "find (\<lambda>q. preset_value q = v) (presets p) = Some q" "duration q = Some d"
      and ok: "durationSchema_issues (adjustedInterval p d) = []" for q d
  proof -
    from main [OF ok] obtain e where e: "handleIntervalChange p d = Inr [SetInterval e]"
      and r: "inRange e (minInterval p) (maxInterval p)" by blast
    have "emitted ([SetInterval e] @ (if onPresetChange p then [OnPresetChange v] else [])) = [e]"
      by (simp add: emitted_def)
    with handlePresetChange_duration [OF a e] r show ?thesis by blast
  qed
  from main preset show ?thesis
    unfolding setHours_def setMinutes_def setSeconds_def by blast
qed

theorem emitted_in_range_witness:
  "durationToMs (minInterval App_props) \<le> durationToMs (maxInterval App_props)
   \<and> durationSchema_issues (adjustedInterval App_props ((interval App_props)\<lparr>hours := 30\<rparr>)) = []
   \<and> setHours App_props 30 = Inr [SetInterval \<lparr>hours = 24, minutes = 0, seconds = 0\<rparr>]
   \<and> inRange \<lparr>hours = 24, minutes = 0, seconds = 0\<rparr> (minInterval App_props) (maxInterval App_props)"
proof -
  have ord: "durationToMs (minInterval App_props) \<le> durationToMs (maxInterval App_props)"
    by (simp add: App_props_def durationToMs_def)
  have ok: "durationSchema_issues (adjustedInterval App_props ((interval App_props)\<lparr>hours := 30\<rparr>)) = []"
    by (simp add: durationSchema_issues_empty adjustedInterval_def App_props_def)
  have ev: "setHours App_props 30 = Inr [SetInterval \<lparr>hours = 24, minutes = 0, seconds = 0\<rparr>]"
    unfolding setHours_def handleIntervalChange_valid [OF ok]
    by (simp add: getNextValidDuration_cases adjustedInterval_def App_props_def durationToMs_def)
  from emitted_in_range [OF ord, of _ 30] ok ev
  have "inRange \<lparr>hours = 24, minutes = 0, seconds = 0\<rparr> (minInterval App_props) (maxInterval App_props)"
    by simp
  with ord ok ev show ?thesis by simp
qed

text \<open>
  C7, as written, fails on two paths. With the seconds hidden, a minimum of thirty
  seconds and a duration of one minute, setting the minutes to 0 gives an update below
  the minimum, and the minimum is emitted whole, with its 30 seconds. With the seconds hidden and a previous duration
  that holds 45 seconds, an update that fails the schema makes the handler emit the
  previous duration again, with its 45 seconds.
\<close>

theorem hidden_field_counterexample:
  "\<not> showSeconds (App_props\<lparr>showSeconds := False,
        interval := \<lparr>hours = 0, minutes = 1, seconds = 0\<rparr>,
        minInterval := \<lparr>hours = 0, minutes = 0, seconds = 30\<rparr>\<rparr>)
   \<and> setMinutes (App_props\<lparr>showSeconds := False,
        interval := \<lparr>hours = 0, minutes = 1, seconds = 0\<rparr>,
        minInterval := \<lparr>hours = 0, minutes = 0, seconds = 30\<rparr>\<rparr>) 0
       = Inr [SetInterval \<lparr>hours = 0, minutes = 0, seconds = 30\<rparr>]
   \<and> handleIntervalChange (App_props\<lparr>showSeconds := False,
        interval := \<lparr>hours = 1, minutes = 30, seconds = 45\<rparr>\<rparr>)
        \<lparr>hours = 0, minutes = 90, seconds = 0\<rparr>
       = Inr [ConsoleError [too_big Minutes], SetInterval \<lparr>hours = 1, minutes = 30, seconds = 45\<rparr>]"
  by (simp add: setMinutes_def handleIntervalChange_def tryBlock_def durationSchema_parse_def
      durationSchema_issues_def number_min_def number_max_def adjustedInterval_def
      getNextValidDuration_def durationToMs_def App_props_def)

text \<open>
  C7, amended. When a field is hidden, the duration that \<open>handleIntervalChange\<close> validates
  and clamps has 0 in that field, whatever the update and the previous duration hold
  there. The handler emits exactly one duration. When the adjusted update passes the
  schema, the emitted duration is the adjusted update itself, with 0 in the hidden
  field, if it lies within the bounds; it is the minimum, whole, if the update is below
  it, and otherwise the maximum, whole, if the update is above it; so it has 0 in the
  hidden field whenever both bounds have 0 there. When the adjusted update fails the
  schema, the emitted duration is the previous duration, unchanged; so it has 0 in the
  hidden field whenever the previous duration has 0 there.
\<close>

theorem hidden_field_zero:
  assumes "\<not> shown p f"
  shows "get_field f (adjustedInterval p n) = 0
   \<and> (\<exists>e evs. handleIntervalChange p n = Inr evs \<and> emitted evs = [e]
        \<and> (durationSchema_issues (adjustedInterval p n) \<noteq> [] \<longrightarrow> e = interval p)
        \<and> (durationSchema_issues (adjustedInterval p n) = [] \<and>
             inRange (adjustedInterval p n) (minInterval p) (maxInterval p)
             \<longrightarrow> e = adjustedInterval p n \<and> get_field f e = 0)
        \<and> (durationSchema_issues (adjustedInterval p n) = [] \<and>
             durationToMs (adjustedInterval p n) < durationToMs (minInterval p)
             \<longrightarrow> e = minInterval p)
        \<and> (durationSchema_issues (adjustedInterval p n) = [] \<and>
             durationToMs (minInterval p) \<le> durationToMs (adjustedInterval p n) \<and>
             durationToMs (adjustedInterval p n) > durationToMs (maxInterval p)
             \<longrightarrow> e = maxInterval p)
        \<and> (durationSchema_issues (adjustedInterval p n) = [] \<and>
             get_field f (minInterval p) = 0 \<and> get_field f (maxInterval p) = 0
             \<longrightarrow> get_field f e = 0)
        \<and> (durationSchema_issues (adjustedInterval p n) \<noteq> [] \<and>
             get_field f (interval p) = 0
             \<longrightarrow> get_field f e = 0))"
proof (cases "durationSchema_issues (adjustedInterval p n) = []")
  case True
  have z: "get_field f (adjustedInterval p n) = 0" using assms by (rule adjustedInterval_hidden)
  have h: "handleIntervalChange p n =
      Inr [SetInterval (getNextValidDuration (adjustedInterval p n) (minInterval p) (maxInterval p))]"
    using True by (rule handleIntervalChange_valid)
  have e: "emitted [SetInterval (getNextValidDuration (adjustedInterval p n) (minInterval p) (maxInterval p))]
      = [getNextValidDuration (adjustedInterval p n) (minInterval p) (maxInterval p)]"
    by (simp add: emitted_def)
  have c: "getNextValidDuration (adjustedInterval p n) (minInterval p) (maxInterval p) =
     (if durationToMs (adjustedInterval p n) < durationToMs (minInterval p) then minInterval p
      else if durationToMs (adjustedInterval p n) > durationToMs (maxInterval p) then maxInterval p
      else adjustedInterval p n)"
    by (rule getNextValidDuration_cases)
  show ?thesis
    apply (rule conjI [OF z])
    apply (rule exI [of _ "getNextValidDuration (adjustedInterval p n) (minInterval p) (maxInterval p)"])
    apply (rule exI [of _ "[SetInterval (getNextValidDuration (adjustedInterval p n) (minInterval p) (maxInterval p))]"])
    using True z h e c by (auto simp add: inRange_def)
next
  case False
  have z: "get_field f (adjustedInterval p n) = 0" using assms by (rule adjustedInterval_hidden)
  from False z show ?thesis
    by (simp add: handleIntervalChange_invalid emitted_def)
qed

theorem hidden_field_zero_witness:
  "\<not> shown (App_props\<lparr>showSeconds := False\<rparr>) Seconds
   \<and> get_field Seconds (adjustedInterval (App_props\<lparr>showSeconds := False\<rparr>)
        \<lparr>hours = 2, minutes = 15, seconds = 40\<rparr>) = 0
   \<and> handleIntervalChange (App_props\<lparr>showSeconds := False\<rparr>)
        \<lparr>hours = 2, minutes = 15, seconds = 40\<rparr>
       = Inr [SetInterval \<lparr>hours = 2, minutes = 15, seconds = 0\<rparr>]
   \<and> handleIntervalChange (App_props\<lparr>showSeconds := False\<rparr>)
        \<lparr>hours = 0, minutes = 90, seconds = 40\<rparr>
       = Inr [ConsoleError [too_big Minutes], SetInterval \<lparr>hours = 1, minutes = 30, seconds = 0\<rparr>]"
proof -
  have h: "\<not> shown (App_props\<lparr>showSeconds := False\<rparr>) Seconds"
    by (simp add: shown_def)
  have ev: "handleIntervalChange (App_props\<lparr>showSeconds := False\<rparr>)
        \<lparr>hours = 2, minutes = 15, seconds = 40\<rparr>
       = Inr [SetInterval \<lparr>hours = 2, minutes = 15, seconds = 0\<rparr>]"
    by (simp add: handleIntervalChange_def tryBlock_def durationSchema_parse_def
      durationSchema_issues_def number_min_def number_max_def adjustedInterval_def
      getNextValidDuration_def durationToMs_def App_props_def)
  have bad: "handleIntervalChange (App_props\<lparr>showSeconds := False\<rparr>)
        \<lparr>hours = 0, minutes = 90, seconds = 40\<rparr>
       = Inr [ConsoleError [too_big Minutes], SetInterval \<lparr>hours = 1, minutes = 30, seconds = 0\<rparr>]"
    by (simp add: handleIntervalChange_def tryBlock_def durationSchema_parse_def
      durationSchema_issues_def number_min_def number_max_def adjustedInterval_def
      App_props_def)
  from hidden_field_zero [OF h, of "\<lparr>hours = 2, minutes = 15, seconds = 40\<rparr>"] h ev bad
  show ?thesis by blast
qed

text \<open>
  C8. \<open>handleIntervalChange\<close> checks the update it has composed (the new duration with
  its hidden fields set to 0) against the schema, which fails exactly when the hours
  are negative or the minutes or the seconds are outside 0 to 59. When the check fails,
  the handler logs the issues and emits the previous duration, unchanged, and nothing
  else; when it passes, the handler emits the clamped update and nothing else. In both
  cases the handler returns: no exception leaves it. With every field shown the
  composed update is the new duration itself.
\<close>

theorem handleIntervalChange_schema:
  "(durationSchema_issues (adjustedInterval p n) = [] \<longleftrightarrow>
      0 \<le> hours (adjustedInterval p n) \<and>
      0 \<le> minutes (adjustedInterval p n) \<and> minutes (adjustedInterval p n) \<le> 59 \<and>
      0 \<le> seconds (adjustedInterval p n) \<and> seconds (adjustedInterval p n) \<le> 59)
   \<and> (durationSchema_issues (adjustedInterval p n) \<noteq> [] \<longrightarrow>
      handleIntervalChange p n =
        Inr [ConsoleError (durationSchema_issues (adjustedInterval p n)), SetInterval (interval p)])
   \<and> (durationSchema_issues (adjustedInterval p n) = [] \<longrightarrow>
      handleIntervalChange p n =
        Inr [SetInterval (getNextValidDuration (adjustedInterval p n) (minInterval p) (maxInterval p))])
   \<and> (\<exists>evs. handleIntervalChange p n = Inr evs)
   \<and> (showHours p \<and> showMinutes p \<and> showSeconds p \<longrightarrow> adjustedInterval p n = n)"
proof -
  have "\<exists>evs. handleIntervalChange p n = Inr evs"
    using handleIntervalChange_returns [of p n] by blast
  then show ?thesis
    using durationSchema_issues_empty [of "adjustedInterval p n"]
    by (simp add: handleIntervalChange_valid handleIntervalChange_invalid adjustedInterval_all_shown)
qed

theorem handleIntervalChange_schema_witness:
  "durationSchema_issues (adjustedInterval App_props \<lparr>hours = 0, minutes = 90, seconds = 0\<rparr>) \<noteq> []
   \<and> handleIntervalChange App_props \<lparr>hours = 0, minutes = 90, seconds = 0\<rparr>
       = Inr [ConsoleError [too_big Minutes], SetInterval \<lparr>hours = 1, minutes = 30, seconds = 0\<rparr>]
   \<and> durationSchema_issues (adjustedInterval App_props \<lparr>hours = 30, minutes = 0, seconds = 0\<rparr>) = []
   \<and> handleIntervalChange App_props \<lparr>hours = 30, minutes = 0, seconds = 0\<rparr>
       = Inr [SetInterval \<lparr>hours = 24, minutes = 0, seconds = 0\<rparr>]"
proof -
  have bad: "durationSchema_issues (adjustedInterval App_props \<lparr>hours = 0, minutes = 90, seconds = 0\<rparr>)
      = [too_big Minutes]"
    by (simp add: durationSchema_issues_def number_min_def number_max_def adjustedInterval_def
        App_props_def)
  have good: "durationSchema_issues (adjustedInterval App_props \<lparr>hours = 30, minutes = 0, seconds = 0\<rparr>) = []"
    by (simp add: durationSchema_issues_def number_min_def number_max_def adjustedInterval_def
        App_props_def)
  have clamp: "getNextValidDuration (adjustedInterval App_props \<lparr>hours = 30, minutes = 0, seconds = 0\<rparr>)
      (minInterval App_props) (maxInterval App_props) = \<lparr>hours = 24, minutes = 0, seconds = 0\<rparr>"
    by (simp add: getNextValidDuration_cases adjustedInterval_def App_props_def durationToMs_def)
  have prev: "interval App_props = \<lparr>hours = 1, minutes = 30, seconds = 0\<rparr>"
    by (simp add: App_props_def)
  from handleIntervalChange_schema [of App_props "\<lparr>hours = 0, minutes = 90, seconds = 0\<rparr>"]
    handleIntervalChange_schema [of App_props "\<lparr>hours = 30, minutes = 0, seconds = 0\<rparr>"]
    bad good clamp prev
  show ?thesis by simp
qed

section \<open>The picker: selecting a preset\<close>

text \<open>
  C9. The preset is the first one of the list whose \<open>value\<close> is the selected key. If it
  carries a duration, that duration goes through \<open>handleIntervalChange\<close>, which emits
  exactly one duration, and the calls of the handler are those of \<open>handleIntervalChange\<close>
  followed by the call of \<open>onPresetChange\<close>. If no preset has the key, or the preset
  found carries no duration, the only call is that of \<open>onPresetChange\<close>: no duration is
  emitted. In every case the handler returns, and \<open>onPresetChange\<close>, when the
  application supplied it, is called exactly once, with the selected key.
\<close>

theorem handlePresetChange_spec:
  "(\<forall>q d. find (\<lambda>q. preset_value q = v) (presets p) = Some q \<and> duration q = Some d \<longrightarrow>
      (\<exists>evs e. handleIntervalChange p d = Inr evs \<and> emitted evs = [e] \<and>
         handlePresetChange p v = Inr (evs @ (if onPresetChange p then [OnPresetChange v] else []))))
   \<and> ((find (\<lambda>q. preset_value q = v) (presets p) = None \<or>
        (\<exists>q. find (\<lambda>q. preset_value q = v) (presets p) = Some q \<and> duration q = None)) \<longrightarrow>
      handlePresetChange p v = Inr (if onPresetChange p then [OnPresetChange v] else []))
   \<and> (\<exists>evs. handlePresetChange p v = Inr evs \<and>
        notified evs = (if onPresetChange p then [v] else []))"
proof (intro conjI allI impI)
  fix q d
  assume a: "find (\<lambda>q. preset_value q = v) (presets p) = Some q \<and> duration q = Some d"
  obtain e evs where h: "handleIntervalChange p d = Inr evs" and e: "emitted evs = [e]"
    using handleIntervalChange_returns [of p d] by blast
  with a handlePresetChange_duration [of v p q d evs]
  show "\<exists>evs e. handleIntervalChange p d = Inr evs \<and> emitted evs = [e] \<and>
         handlePresetChange p v = Inr (evs @ (if onPresetChange p then [OnPresetChange v] else []))"
    by blast
next
  assume "find (\<lambda>q. preset_value q = v) (presets p) = None \<or>
        (\<exists>q. find (\<lambda>q. preset_value q = v) (presets p) = Some q \<and> duration q = None)"
  then show "handlePresetChange p v = Inr (if onPresetChange p then [OnPresetChange v] else [])"
    by (rule handlePresetChange_no_duration)
next
  show "\<exists>evs. handlePresetChange p v = Inr evs \<and> notified evs = (if onPresetChange p then [v] else [])"
  proof (cases "\<exists>q d. find (\<lambda>q. preset_value q = v) (presets p) = Some q \<and> duration q = Some d")
    case True
    then obtain q d where a: "find (\<lambda>q. preset_value q = v) (presets p) = Some q" "duration q = Some d"
      by blast
    obtain e evs where h: "handleIntervalChange p d = Inr evs"
      using handleIntervalChange_returns [of p d] by blast
    from handlePresetChange_duration [OF a h] handleIntervalChange_notified [OF h]
    show ?thesis by (simp add: notified_append notified_simps)
  next
    case False
    then have "find (\<lambda>q. preset_value q = v) (presets p) = None \<or>
        (\<exists>q. find (\<lambda>q. preset_value q = v) (presets p) = Some q \<and> duration q = None)"
      by (cases "find (\<lambda>q. preset_value q = v) (presets p)") auto
    from handlePresetChange_no_duration [OF this] show ?thesis by (simp add: notified_simps)
  qed
qed

theorem handlePresetChange_spec_witness:
  "find (\<lambda>q. preset_value q = ''custom'') (presets App_props)
     = Some \<lparr>preset_id = ''custom'', preset_value = ''custom'', preset_label = ''Custom'',
        duration = None\<rparr>
   \<and> handlePresetChange App_props ''custom'' = Inr [OnPresetChange ''custom'']
   \<and> handlePresetChange App_props ''2''
       = Inr [SetInterval \<lparr>hours = 6, minutes = 0, seconds = 0\<rparr>, OnPresetChange ''2'']"
proof -
  have f: "find (\<lambda>q. preset_value q = ''custom'') (presets App_props)
     = Some \<lparr>preset_id = ''custom'', preset_value = ''custom'', preset_label = ''Custom'',
        duration = None\<rparr>"
    by (simp add: App_props_def App_presets_def)
  have c: "handlePresetChange App_props ''custom'' = Inr [OnPresetChange ''custom'']"
    using handlePresetChange_spec [of "''custom''" App_props] f
    by (simp add: App_props_def)
  have g: "find (\<lambda>q. preset_value q = ''2'') (presets App_props)
     = Some \<lparr>preset_id = ''2'', preset_value = ''2'', preset_label = ''6 Hours'',
        duration = Some \<lparr>hours = 6, minutes = 0, seconds = 0\<rparr>\<rparr>"
    by (simp add: App_props_def App_presets_def)
  have i: "handleIntervalChange App_props \<lparr>hours = 6, minutes = 0, seconds = 0\<rparr>
       = Inr [SetInterval \<lparr>hours = 6, minutes = 0, seconds = 0\<rparr>]"
    by (simp add: handleIntervalChange_def tryBlock_def durationSchema_parse_def
      durationSchema_issues_def number_min_def number_max_def adjustedInterval_def
      getNextValidDuration_def durationToMs_def App_props_def)
  have s: "handlePresetChange App_props ''2''
       = Inr [SetInterval \<lparr>hours = 6, minutes = 0, seconds = 0\<rparr>, OnPresetChange ''2'']"
    using handlePresetChange_duration [OF g _ i] by (simp add: App_props_def)
  from f c s show ?thesis by simp
qed

end
